theory Spec2Isabelle
  imports Main
begin

section \<open>Python values used by \<open>mcp_proxy.py\<close>\<close>

text \<open>
  An exception is either an instance of \<open>Exception\<close> (\<open>Exc\<close>, with its class name) or a
  \<open>BaseException\<close> outside \<open>Exception\<close> (\<open>BaseExc\<close>: \<open>asyncio.CancelledError\<close>,
  \<open>KeyboardInterrupt\<close>, \<open>SystemExit\<close>). The clauses \<open>except Exception\<close> of the source
  catch the first kind only.
\<close>

datatype py_exc = Exc string | BaseExc string

type_synonym 'a result = "py_exc + 'a"

text \<open>
  What \<open>json.loads\<close> builds. A float is \<open>Finite m e\<close> (the value \<open>m * 2 ^ e\<close>), an infinity
  (with its sign) or NaN; a dictionary is the list of its items, keys distinct.
\<close>

datatype pyfloat = Finite int int | Infinity bool | NaN

datatype json =
    JNull
  | JBool bool
  | JInt int
  | JFloat pyfloat
  | JStr string
  | JArr "json list"
  | JObj "(string \<times> json) list"

text \<open>Python truth value, as \<open>not model\<close> tests it.\<close>

fun truthy :: "json \<Rightarrow> bool" where
  "truthy JNull = False"
| "truthy (JBool b) = b"
| "truthy (JInt n) = (n \<noteq> 0)"
| "truthy (JFloat (Finite m e)) = (m \<noteq> 0)"
| "truthy (JFloat (Infinity s)) = True"
| "truthy (JFloat NaN) = True"
| "truthy (JStr s) = (s \<noteq> [])"
| "truthy (JArr xs) = (xs \<noteq> [])"
| "truthy (JObj d) = (d \<noteq> [])"

text \<open>
  \<open>body.get(key, default)\<close>: only a dictionary has the method; on any other JSON value the
  attribute lookup raises \<open>AttributeError\<close>.
\<close>

fun json_get :: "json \<Rightarrow> string \<Rightarrow> json \<Rightarrow> json result" where
  "json_get (JObj d) key dflt = Inr (case map_of d key of Some v \<Rightarrow> v | None \<Rightarrow> dflt)"
| "json_get _ key dflt = Inl (Exc ''AttributeError'')"

text \<open>
  \<open>str.lower\<close> on the code points below 256: the ASCII capitals and the Latin-1 capitals
  (192 to 222 without the multiplication sign 215) move up by 32.
\<close>

definition lower_char :: "char \<Rightarrow> char" where
  "lower_char c =
     (let n = (of_char c :: nat)
      in if (65 \<le> n \<and> n \<le> 90) \<or> (192 \<le> n \<and> n \<le> 222 \<and> n \<noteq> 215)
         then char_of (n + 32) else c)"

definition lower :: "string \<Rightarrow> string" where
  "lower s = map lower_char s"

text \<open>\<open>s.rstrip('/')\<close> and \<open>s.lstrip('/')\<close>.\<close>

definition lstrip_slash :: "string \<Rightarrow> string" where
  "lstrip_slash s = dropWhile (\<lambda>c. c = CHR ''/'') s"

definition rstrip_slash :: "string \<Rightarrow> string" where
  "rstrip_slash s = rev (dropWhile (\<lambda>c. c = CHR ''/'') (rev s))"

text \<open>
  A Python \<open>dict\<close> built by a comprehension over items: a key seen again keeps its place
  and takes the later value.
\<close>

fun dict_set :: "('k \<times> 'v) list \<Rightarrow> 'k \<Rightarrow> 'v \<Rightarrow> ('k \<times> 'v) list" where
  "dict_set [] k v = [(k, v)]"
| "dict_set ((k', v') # d) k v =
     (if k' = k then (k', v) # d else (k', v') # dict_set d k v)"

definition py_dict :: "('k \<times> 'v) list \<Rightarrow> ('k \<times> 'v) list" where
  "py_dict items = foldl (\<lambda>d (k, v). dict_set d k v) [] items"

section \<open>Requests, responses and the upstream\<close>

type_synonym headers = "(string \<times> string) list"

text \<open>
  The inbound \<open>aiohttp.web.Request\<close>, as far as the handlers use it: \<open>request.headers.items()\<close>,
  the outcome of \<open>await request.json()\<close>, and the body as it arrives, in chunks, or the
  exception that reading it raises. \<open>await request.read()\<close> returns the whole body. The two
  awaits are outcomes of the library, given with the request; no handler depends on how
  they relate.
\<close>

record request =
  req_headers :: headers
  req_payload :: "string list result"
  req_json :: "json result"

definition request_read :: "request \<Rightarrow> string result" where
  "request_read request = map_sum id concat (req_payload request)"

text \<open>
  The upstream's answer as the client session hands it over: status, \<open>response.headers.items()\<close>
  and the body in chunks (or the exception raised while reading it). \<open>await response.read()\<close>
  returns the whole body.
\<close>

record up_response =
  up_status :: int
  up_headers :: headers
  up_payload :: "string list result"

definition response_read :: "up_response \<Rightarrow> string result" where
  "response_read response = map_sum id concat (up_payload response)"

text \<open>The two calls the source makes on the session: \<open>post(url, headers=, data=)\<close> and \<open>get(url)\<close>.\<close>

datatype out_request = Post string headers string | Get string

text \<open>
  The upstream is outside the program: \<open>net n q\<close> is what the \<open>n\<close>-th request handed to the
  session (counting from 0) yields when it is \<open>q\<close>: an exception (connection refused,
  timeout, ...) or a response. The state threaded through the handlers is the list of
  requests handed to the session so far.
\<close>

type_synonym network = "nat \<Rightarrow> out_request \<Rightarrow> up_response result"

text \<open>The two calls of \<open>web.Response\<close> in the source: \<open>(status=, text=)\<close> and \<open>(body=, status=, headers=)\<close>.\<close>

datatype response = Text_Response int string | Body_Response string int headers



section \<open>The proxy\<close>

record client_session =
  closed :: bool

record proxy =
  ollama_url :: string
  openwebui_url :: string
  session :: "client_session option"

definition MCPProxy_init :: "string \<Rightarrow> string \<Rightarrow> proxy" where
  "MCPProxy_init ollama openwebui =
     \<lparr>ollama_url = rstrip_slash ollama, openwebui_url = rstrip_slash openwebui, session = None\<rparr>"

definition start_session :: "proxy \<Rightarrow> proxy" where
  "start_session self = self\<lparr>session := Some \<lparr>closed = False\<rparr>\<rparr>"

definition stop_session :: "proxy \<Rightarrow> proxy" where
  "stop_session self =
     (case session self of
        None \<Rightarrow> self
      | Some s \<Rightarrow> self\<lparr>session := Some (s\<lparr>closed := True\<rparr>)\<rparr>)"

text \<open>
  \<open>self.session.post(...)\<close> and \<open>self.session.get(...)\<close>: with \<open>self.session\<close> still \<open>None\<close> the
  attribute lookup raises \<open>AttributeError\<close>, a closed session raises \<open>RuntimeError\<close>, and in
  both cases nothing is handed to the network.
\<close>

definition session_request ::
  "client_session option \<Rightarrow> network \<Rightarrow> out_request \<Rightarrow> out_request list
     \<Rightarrow> up_response result \<times> out_request list" where
  "session_request s net q sent =
     (case s of
        None \<Rightarrow> (Inl (Exc ''AttributeError''), sent)
      | Some cs \<Rightarrow>
          if closed cs then (Inl (Exc ''RuntimeError''), sent)
          else (net (length sent) q, sent @ [q]))"

text \<open>
  \<open>try: ... except Exception: return handler\<close> around a body that has run to \<open>res\<close>. The
  \<open>logger.error\<close> call of each handler only writes to the process log and is left out.
\<close>

fun except_Exception ::
  "response result \<times> out_request list \<Rightarrow> response \<Rightarrow> response result \<times> out_request list" where
  "except_Exception (Inl (Exc m), sent) handler = (Inr handler, sent)"
| "except_Exception (Inl (BaseExc m), sent) handler = (Inl (BaseExc m), sent)"
| "except_Exception (Inr r, sent) handler = (Inr r, sent)"

text \<open>
  \<open>forward_request\<close> (lines 36 to 62). The headers of the outbound request are the
  comprehension \<open>{key: value for key, value in request.headers.items() if key.lower() != 'host'}\<close>.
  The steps of the \<open>try\<close> run in the order of the source: read the inbound body, build the
  URL, call \<open>self.session.post\<close>, read the upstream body, build the response.
\<close>

definition forward_headers :: "headers \<Rightarrow> headers" where
  "forward_headers hs = py_dict (filter (\<lambda>(key, value). lower key \<noteq> ''host'') hs)"

definition forward_request ::
  "proxy \<Rightarrow> request \<Rightarrow> string \<Rightarrow> network \<Rightarrow> out_request list
     \<Rightarrow> response result \<times> out_request list" where
  "forward_request self request endpoint net sent =
     except_Exception
       (case request_read request of
          Inl e \<Rightarrow> (Inl e, sent)
        | Inr body \<Rightarrow>
            (let target_url = ollama_url self @ ''/'' @ lstrip_slash endpoint
             in case session_request (session self) net
                       (Post target_url (forward_headers (req_headers request)) body) sent of
                  (Inl e, sent') \<Rightarrow> (Inl e, sent')
                | (Inr response, sent') \<Rightarrow>
                    (case response_read response of
                       Inl e \<Rightarrow> (Inl e, sent')
                     | Inr content \<Rightarrow>
                         (Inr (Body_Response content (up_status response)
                                 (py_dict (up_headers response))), sent'))))
       (Text_Response 500 ''Internal Server Error'')"

text \<open>
  \<open>handle_mcp_request\<close> (lines 64 to 80): parse the body, test \<open>body.get('model', '')\<close>,
  forward to "generate"; all inside \<open>try ... except Exception\<close>.
\<close>

definition handle_mcp_request ::
  "proxy \<Rightarrow> request \<Rightarrow> network \<Rightarrow> out_request list \<Rightarrow> response result \<times> out_request list" where
  "handle_mcp_request self request net sent =
     except_Exception
       (case req_json request of
          Inl e \<Rightarrow> (Inl e, sent)
        | Inr body \<Rightarrow>
            (case json_get body ''model'' (JStr '''') of
               Inl e \<Rightarrow> (Inl e, sent)
             | Inr model \<Rightarrow>
                 if \<not> truthy model then (Inr (Text_Response 400 ''Model name required''), sent)
                 else forward_request self request ''generate'' net sent))
       (Text_Response 500 ''Internal Server Error'')"

text \<open>\<open>handle_chat_request\<close> and \<open>handle_completion_request\<close> (lines 82 to 88).\<close>

definition handle_chat_request ::
  "proxy \<Rightarrow> request \<Rightarrow> network \<Rightarrow> out_request list \<Rightarrow> response result \<times> out_request list" where
  "handle_chat_request self request net sent = forward_request self request ''chat'' net sent"

definition handle_completion_request ::
  "proxy \<Rightarrow> request \<Rightarrow> network \<Rightarrow> out_request list \<Rightarrow> response result \<times> out_request list" where
  "handle_completion_request self request net sent =
     forward_request self request ''generate'' net sent"

text \<open>
  \<open>handle_health_check\<close> (lines 90 to 100): one GET on \<open>{ollama_url}/health\<close>, inside
  \<open>try ... except Exception\<close>.
\<close>

definition handle_health_check ::
  "proxy \<Rightarrow> request \<Rightarrow> network \<Rightarrow> out_request list \<Rightarrow> response result \<times> out_request list" where
  "handle_health_check self request net sent =
     except_Exception
       (case session_request (session self) net (Get (ollama_url self @ ''/health'')) sent of
          (Inl e, sent') \<Rightarrow> (Inl e, sent')
        | (Inr response, sent') \<Rightarrow>
            if up_status response = 200 then (Inr (Text_Response 200 ''OK''), sent')
            else (Inr (Text_Response 503 ''Service Unavailable''), sent'))
       (Text_Response 503 ''Service Unavailable'')"

section \<open>Concrete proxies, requests and upstreams\<close>

definition demo_proxy :: proxy where
  "demo_proxy = start_session (MCPProxy_init ''http://localhost:11434/'' ''http://localhost:3000'')"

definition chat_request :: request where
  "chat_request =
     \<lparr>req_headers =
        [(''Host'', ''proxy:8000''), (''Connection'', ''keep-alive''),
         (''Content-Type'', ''application/json'')],
      req_payload = Inr [''{\"model\":'', ''\"llama3\"}''],
      req_json = Inr (JObj [(''model'', JStr ''llama3'')])\<rparr>"

definition no_model_request :: request where
  "no_model_request =
     \<lparr>req_headers = [(''Host'', ''proxy:8000'')],
      req_payload = Inr [''{}''],
      req_json = Inr (JObj [])\<rparr>"


definition health_request :: request where
  "health_request =
     \<lparr>req_headers = [(''Host'', ''proxy:8000'')],
      req_payload = Inr [],
      req_json = Inl (Exc ''JSONDecodeError'')\<rparr>"

definition ok_response :: up_response where
  "ok_response =
     \<lparr>up_status = 200,
      up_headers = [(''Content-Type'', ''application/json''), (''Connection'', ''close'')],
      up_payload = Inr [''{\"done\":'', ''true}'']\<rparr>"

definition ok_upstream :: network where
  "ok_upstream n q = Inr ok_response"



definition refused_upstream :: network where
  "refused_upstream n q = Inl (Exc ''ClientConnectorError'')"

definition timeout_upstream :: network where
  "timeout_upstream n q = Inl (Exc ''TimeoutError'')"

text \<open>An upstream that refuses the first connection and answers from the second on.\<close>

definition flaky_upstream :: network where
  "flaky_upstream n q = (if n = 0 then Inl (Exc ''ClientConnectorError'') else Inr ok_response)"

section \<open>Dictionaries built by comprehension\<close>










section \<open>The handlers, step by step\<close>

lemma demo_proxy_session: "session demo_proxy = Some \<lparr>closed = False\<rparr>"
  by (simp add: demo_proxy_def start_session_def)

lemma demo_proxy_url: "ollama_url demo_proxy = ''http://localhost:11434''"
  by (simp add: demo_proxy_def start_session_def MCPProxy_init_def rstrip_slash_def)

text \<open>An \<open>Exception\<close> never leaves a \<open>try\<close> whose \<open>except Exception\<close> clause returns.\<close>

lemma except_Exception_no_Exc: "fst (except_Exception x handler) \<noteq> Inl (Exc m)"
  by (cases "(x, handler)" rule: except_Exception.cases) auto

lemma except_Exception_idem:
  "except_Exception (except_Exception x h) h' = except_Exception x h"
  by (cases "(x, h)" rule: except_Exception.cases) auto

lemma fst_except_Exception:
  "fst (except_Exception (res, sent) handler) =
     (case res of
        Inl (Exc m) \<Rightarrow> Inr handler
      | Inl (BaseExc m) \<Rightarrow> Inl (BaseExc m)
      | Inr r \<Rightarrow> Inr r)"
  by (cases "((res, sent), handler)" rule: except_Exception.cases) auto

lemma snd_except_Exception: "snd (except_Exception x handler) = snd x"
  by (cases "(x, handler)" rule: except_Exception.cases) auto

lemma forward_request_no_Exc:
  "fst (forward_request self request endpoint net sent) \<noteq> Inl (Exc m)"
  unfolding forward_request_def by (rule except_Exception_no_Exc)

text \<open>What \<open>forward_request\<close> hands to the session.\<close>

lemma forward_request_sent:
  "snd (forward_request self request endpoint net sent) =
     (case request_read request of
        Inl e \<Rightarrow> sent
      | Inr body \<Rightarrow>
          snd (session_request (session self) net
                 (Post (ollama_url self @ ''/'' @ lstrip_slash endpoint)
                    (forward_headers (req_headers request)) body) sent))"
  by (simp add: forward_request_def snd_except_Exception split: sum.splits prod.splits)

lemma session_request_sent:
  "snd (session_request s net q sent) = sent \<or> snd (session_request s net q sent) = sent @ [q]"
  by (simp add: session_request_def split: option.splits)

lemma forward_at_most_one_attempt:
  "length (snd (forward_request self request endpoint net sent)) \<le> length sent + 1"
proof (cases "request_read request")
  case (Inl e)
  then show ?thesis by (simp add: forward_request_sent)
next
  case (Inr body)
  then show ?thesis
    using session_request_sent [of "session self" net
        "Post (ollama_url self @ ''/'' @ lstrip_slash endpoint)
           (forward_headers (req_headers request)) body" sent]
    by (auto simp: forward_request_sent)
qed

text \<open>Once the model field has passed the test, /mcp is \<open>forward_request\<close> to "generate".\<close>

lemma mcp_valid_forwards:
  assumes "req_json request = Inr body"
    and "json_get body ''model'' (JStr []) = Inr model"
    and "truthy model"
  shows "handle_mcp_request self request net sent =
           forward_request self request ''generate'' net sent"
proof -
  have "handle_mcp_request self request net sent =
          except_Exception (forward_request self request ''generate'' net sent)
            (Text_Response 500 ''Internal Server Error'')"
    using assms by (simp add: handle_mcp_request_def)
  also have "\<dots> = forward_request self request ''generate'' net sent"
    unfolding forward_request_def by (rule except_Exception_idem)
  finally show ?thesis .
qed

text \<open>The run of \<open>forward_request\<close> when every step succeeds.\<close>

lemma forward_request_success:
  assumes "session self = Some cs" and "\<not> closed cs"
    and "req_payload request = Inr chunks"
    and "net (length sent)
           (Post (ollama_url self @ ''/'' @ lstrip_slash endpoint)
              (forward_headers (req_headers request)) (concat chunks)) = Inr response"
    and "up_payload response = Inr rchunks"
  shows "forward_request self request endpoint net sent =
           (Inr (Body_Response (concat rchunks) (up_status response)
                   (py_dict (up_headers response))),
            sent @ [Post (ollama_url self @ ''/'' @ lstrip_slash endpoint)
                      (forward_headers (req_headers request)) (concat chunks)])"
  using assms
  by (simp add: forward_request_def request_read_def response_read_def session_request_def)

section \<open>Validation of the model field\<close>

text \<open>
  C1 (amended). For every POST /mcp request whose JSON body is an object in which the
  model field is missing or has a false truth value (empty string, null, 0, ...), the
  response is status 400 with the text "Model name required" and nothing is handed to the
  upstream. The /chat and /completion handlers never look at the parsed body: their
  outcome is the same whatever \<open>request.json()\<close> would give.
\<close>

theorem mcp_missing_model_400:
  assumes "req_json request = Inr (JObj d)"
    and "map_of d ''model'' = None \<or> (\<exists>v. map_of d ''model'' = Some v \<and> \<not> truthy v)"
  shows "handle_mcp_request self request net sent =
           (Inr (Text_Response 400 ''Model name required''), sent) \<and>
         handle_chat_request self (request\<lparr>req_json := j\<rparr>) net sent =
           handle_chat_request self request net sent \<and>
         handle_completion_request self (request\<lparr>req_json := j\<rparr>) net sent =
           handle_completion_request self request net sent"
proof -
  have "handle_mcp_request self request net sent =
          (Inr (Text_Response 400 ''Model name required''), sent)"
    using assms by (auto simp: handle_mcp_request_def)
  moreover have "forward_request self (request\<lparr>req_json := j\<rparr>) endpoint net sent =
                   forward_request self request endpoint net sent" for endpoint
    by (simp add: forward_request_def request_read_def split: sum.splits)
  ultimately show ?thesis
    by (simp add: handle_chat_request_def handle_completion_request_def)
qed

theorem mcp_missing_model_400_witness:
  "handle_mcp_request demo_proxy no_model_request ok_upstream [] =
     (Inr (Text_Response 400 ''Model name required''), [])"
proof -
  have h: "req_json no_model_request = Inr (JObj [])"
    by (simp add: no_model_request_def)
  have g: "map_of ([] :: (string \<times> json) list) ''model'' = None \<or>
           (\<exists>v. map_of ([] :: (string \<times> json) list) ''model'' = Some v \<and> \<not> truthy v)"
    by simp
  from mcp_missing_model_400 [OF h g] show ?thesis by simp
qed

text \<open>
  C1 as stated fails on /chat (and likewise on /completion): a request whose JSON body
  \<open>{}\<close> has no model field is handed to the upstream, and the caller gets the upstream's
  answer (here status 200), not 400.
\<close>

theorem chat_forwards_without_model:
  "req_json no_model_request = Inr (JObj []) \<and>
   handle_chat_request demo_proxy no_model_request ok_upstream [] =
     (Inr (Body_Response ''{\"done\":true}'' 200
             [(''Content-Type'', ''application/json''), (''Connection'', ''close'')]),
      [Post ''http://localhost:11434/chat'' [] ''{}''])"
  by code_simp

section \<open>Relaying the upstream's answer\<close>



section \<open>Connect failures\<close>

text \<open>
  C3 (amended). When the call on the session fails with an \<open>Exception\<close> (connection
  refused, timeout or any other), \<open>forward_request\<close> makes no retry: exactly one request
  has been handed to the upstream, the failure is terminal at once, and the caller
  receives status 500 with the text "Internal Server Error".
\<close>

theorem connect_failure_is_terminal:
  assumes "session self = Some cs" and "\<not> closed cs"
    and "req_payload request = Inr chunks"
    and "net (length sent)
           (Post (ollama_url self @ ''/'' @ lstrip_slash endpoint)
              (forward_headers (req_headers request)) (concat chunks)) = Inl (Exc m)"
  shows "forward_request self request endpoint net sent =
           (Inr (Text_Response 500 ''Internal Server Error''),
            sent @ [Post (ollama_url self @ ''/'' @ lstrip_slash endpoint)
                      (forward_headers (req_headers request)) (concat chunks)])"
  using assms
  by (simp add: forward_request_def request_read_def session_request_def)

theorem connect_failure_is_terminal_witness:
  "fst (forward_request demo_proxy chat_request ''chat'' refused_upstream []) =
     Inr (Text_Response 500 ''Internal Server Error'') \<and>
   length (snd (forward_request demo_proxy chat_request ''chat'' refused_upstream [])) = 1"
proof -
  have h2: "\<not> closed \<lparr>closed = False\<rparr>" by simp
  have h3: "req_payload chat_request = Inr [''{\"model\":'', ''\"llama3\"}'']"
    by (simp add: chat_request_def)
  have h4: "refused_upstream (length ([] :: out_request list))
              (Post (ollama_url demo_proxy @ ''/'' @ lstrip_slash ''chat'')
                 (forward_headers (req_headers chat_request))
                 (concat [''{\"model\":'', ''\"llama3\"}''])) = Inl (Exc ''ClientConnectorError'')"
    by (simp add: refused_upstream_def)
  from connect_failure_is_terminal
    [where net = refused_upstream and sent = "[]", OF demo_proxy_session h2 h3 h4]
  show ?thesis by simp
qed

text \<open>
  C3 as stated fails: against an upstream that refuses the first connection and would
  answer the second, the /chat handler gives up after the one refused attempt and
  answers 500; the retry that would have succeeded is never made.
\<close>

theorem no_retry_after_refused_connect:
  "flaky_upstream 0 (Post ''http://localhost:11434/chat''
       [(''Connection'', ''keep-alive''), (''Content-Type'', ''application/json'')]
       ''{\"model\":\"llama3\"}'') = Inl (Exc ''ClientConnectorError'') \<and>
   flaky_upstream 1 (Post ''http://localhost:11434/chat''
       [(''Connection'', ''keep-alive''), (''Content-Type'', ''application/json'')]
       ''{\"model\":\"llama3\"}'') = Inr ok_response \<and>
   handle_chat_request demo_proxy chat_request flaky_upstream [] =
     (Inr (Text_Response 500 ''Internal Server Error''),
      [Post ''http://localhost:11434/chat''
         [(''Connection'', ''keep-alive''), (''Content-Type'', ''application/json'')]
         ''{\"model\":\"llama3\"}''])"
  by code_simp

section \<open>Error responses\<close>

text \<open>
  C4 (amended). No exception of class \<open>Exception\<close> escapes any of the five handlers (only
  a \<open>BaseException\<close> such as a cancellation propagates), and every \<open>Exception\<close> raised while
  forwarding (reading the inbound body, calling the session, reading the upstream body)
  is answered with one and the same response, status 500 with the text
  "Internal Server Error", whatever its cause.
\<close>

theorem exceptions_answered_uniformly:
  "(\<forall>m. fst (forward_request self request endpoint net sent) \<noteq> Inl (Exc m)) \<and>
   (\<forall>m. fst (handle_mcp_request self request net sent) \<noteq> Inl (Exc m)) \<and>
   (\<forall>m. fst (handle_chat_request self request net sent) \<noteq> Inl (Exc m)) \<and>
   (\<forall>m. fst (handle_completion_request self request net sent) \<noteq> Inl (Exc m)) \<and>
   (\<forall>m. fst (handle_health_check self request net sent) \<noteq> Inl (Exc m)) \<and>
   ((request_read request = Inl (Exc m) \<or>
     (\<exists>body. request_read request = Inr body \<and>
        (fst (session_request (session self) net
                (Post (ollama_url self @ ''/'' @ lstrip_slash endpoint)
                   (forward_headers (req_headers request)) body) sent) = Inl (Exc m) \<or>
         (\<exists>response.
            fst (session_request (session self) net
                   (Post (ollama_url self @ ''/'' @ lstrip_slash endpoint)
                      (forward_headers (req_headers request)) body) sent) = Inr response \<and>
            response_read response = Inl (Exc m))))) \<longrightarrow>
    fst (forward_request self request endpoint net sent) =
      Inr (Text_Response 500 ''Internal Server Error''))"
proof -
  have a: "\<forall>m. fst (forward_request self request endpoint net sent) \<noteq> Inl (Exc m)"
    by (simp add: forward_request_no_Exc)
  have b: "\<forall>m. fst (handle_mcp_request self request net sent) \<noteq> Inl (Exc m)"
    unfolding handle_mcp_request_def by (simp add: except_Exception_no_Exc)
  have c: "\<forall>m. fst (handle_chat_request self request net sent) \<noteq> Inl (Exc m)"
    by (simp add: handle_chat_request_def forward_request_no_Exc)
  have d: "\<forall>m. fst (handle_completion_request self request net sent) \<noteq> Inl (Exc m)"
    by (simp add: handle_completion_request_def forward_request_no_Exc)
  have e: "\<forall>m. fst (handle_health_check self request net sent) \<noteq> Inl (Exc m)"
    unfolding handle_health_check_def by (simp add: except_Exception_no_Exc)
  have f: "(request_read request = Inl (Exc m) \<or>
     (\<exists>body. request_read request = Inr body \<and>
        (fst (session_request (session self) net
                (Post (ollama_url self @ ''/'' @ lstrip_slash endpoint)
                   (forward_headers (req_headers request)) body) sent) = Inl (Exc m) \<or>
         (\<exists>response.
            fst (session_request (session self) net
                   (Post (ollama_url self @ ''/'' @ lstrip_slash endpoint)
                      (forward_headers (req_headers request)) body) sent) = Inr response \<and>
            response_read response = Inl (Exc m))))) \<longrightarrow>
    fst (forward_request self request endpoint net sent) =
      Inr (Text_Response 500 ''Internal Server Error'')"
    by (auto simp: forward_request_def split: prod.splits)
  from a b c d e f show ?thesis by blast
qed

theorem exceptions_answered_uniformly_witness:
  "fst (forward_request demo_proxy chat_request ''chat'' timeout_upstream []) =
     Inr (Text_Response 500 ''Internal Server Error'') \<and>
   handle_health_check demo_proxy health_request timeout_upstream [] \<noteq>
     (Inl (Exc ''TimeoutError''), [Get ''http://localhost:11434/health''])"
proof -
  have h: "request_read chat_request = Inr ''{\"model\":\"llama3\"}''"
    by (simp add: request_read_def chat_request_def)
  have g: "fst (session_request (session demo_proxy) timeout_upstream
                (Post (ollama_url demo_proxy @ ''/'' @ lstrip_slash ''chat'')
                   (forward_headers (req_headers chat_request)) ''{\"model\":\"llama3\"}'') []) =
             Inl (Exc ''TimeoutError'')"
    by (simp add: session_request_def demo_proxy_session timeout_upstream_def)
  from exceptions_answered_uniformly
    [of demo_proxy chat_request "''chat''" timeout_upstream "[]" "''TimeoutError''"] h g
  have 1: "fst (forward_request demo_proxy chat_request ''chat'' timeout_upstream []) =
     Inr (Text_Response 500 ''Internal Server Error'')"
    by blast
  from exceptions_answered_uniformly
    [of demo_proxy health_request "''chat''" timeout_upstream "[]" "''TimeoutError''"]
  have "fst (handle_health_check demo_proxy health_request timeout_upstream []) \<noteq>
          Inl (Exc ''TimeoutError'')"
    by blast
  then have 2: "handle_health_check demo_proxy health_request timeout_upstream [] \<noteq>
     (Inl (Exc ''TimeoutError''), [Get ''http://localhost:11434/health''])"
    by auto
  from 1 2 show ?thesis by simp
qed

text \<open>
  C4 as stated fails: a refused connection and a timeout, two different causes, get the
  very same response, so the body does not tell the cause categories apart.
\<close>

theorem refused_and_timeout_same_response:
  "refused_upstream 0 (Post ''http://localhost:11434/chat''
       [(''Connection'', ''keep-alive''), (''Content-Type'', ''application/json'')]
       ''{\"model\":\"llama3\"}'') = Inl (Exc ''ClientConnectorError'') \<and>
   timeout_upstream 0 (Post ''http://localhost:11434/chat''
       [(''Connection'', ''keep-alive''), (''Content-Type'', ''application/json'')]
       ''{\"model\":\"llama3\"}'') = Inl (Exc ''TimeoutError'') \<and>
   fst (handle_chat_request demo_proxy chat_request refused_upstream []) =
     Inr (Text_Response 500 ''Internal Server Error'') \<and>
   fst (handle_chat_request demo_proxy chat_request timeout_upstream []) =
     Inr (Text_Response 500 ''Internal Server Error'')"
  by code_simp

section \<open>The health check\<close>



text \<open>
  C6 (amended). Every call of the GET /health handler with an open session hands one live
  probe, GET \<open>{ollama_url}/health\<close>, to the upstream, and its answer is determined by the
  outcome of that probe alone: two calls whose probes have the same outcome answer
  alike, whatever was sent before. Nothing is cached and no background loop exists.
\<close>

theorem health_check_issues_live_probe:
  assumes "session self = Some cs" and "\<not> closed cs"
  shows "snd (handle_health_check self request net sent) =
           sent @ [Get (ollama_url self @ ''/health'')] \<and>
         (net (length sent) (Get (ollama_url self @ ''/health'')) =
            net' (length sent') (Get (ollama_url self @ ''/health'')) \<longrightarrow>
          fst (handle_health_check self request net sent) =
            fst (handle_health_check self request' net' sent'))"
  using assms
  by (auto simp: handle_health_check_def session_request_def snd_except_Exception
      fst_except_Exception split: sum.splits py_exc.splits)

theorem health_check_issues_live_probe_witness:
  "snd (handle_health_check demo_proxy health_request flaky_upstream []) =
     [Get ''http://localhost:11434/health''] \<and>
   fst (handle_health_check demo_proxy health_request flaky_upstream []) =
     fst (handle_health_check demo_proxy chat_request refused_upstream
            [Get ''http://localhost:11434/health''])"
proof -
  have h2: "\<not> closed \<lparr>closed = False\<rparr>" by simp
  have e: "flaky_upstream (length ([] :: out_request list))
             (Get (ollama_url demo_proxy @ ''/health'')) =
           refused_upstream (length [Get ''http://localhost:11434/health''])
             (Get (ollama_url demo_proxy @ ''/health''))"
    by (simp add: flaky_upstream_def refused_upstream_def)
  from health_check_issues_live_probe
    [where net = flaky_upstream and sent = "[]" and net' = refused_upstream
       and sent' = "[Get ''http://localhost:11434/health'']" and request = health_request
       and request' = chat_request, OF demo_proxy_session h2] e
  show ?thesis by (simp add: demo_proxy_url)
qed

text \<open>
  C6 as stated fails: a first call of the handler, with nothing probed before, sends a
  probe to the upstream itself, and its answer follows the upstream's state at that
  moment (200 against an upstream that answers, 503 against one that refuses).
\<close>

theorem health_check_probes_upstream:
  "snd (handle_health_check demo_proxy health_request ok_upstream []) =
     [Get ''http://localhost:11434/health''] \<and>
   fst (handle_health_check demo_proxy health_request ok_upstream []) =
     Inr (Text_Response 200 ''OK'') \<and>
   snd (handle_health_check demo_proxy health_request refused_upstream []) =
     [Get ''http://localhost:11434/health''] \<and>
   fst (handle_health_check demo_proxy health_request refused_upstream []) =
     Inr (Text_Response 503 ''Service Unavailable'')"
  by code_simp

section \<open>Bodies and headers of a forwarded request\<close>

text \<open>
  C7 (amended). \<open>forward_request\<close> buffers whole bodies: with an open session, the data of
  the one request handed to the upstream is the entire inbound body, all its chunks
  concatenated, and when the upstream answers, the body of the response is the entire
  upstream body, all its chunks concatenated. Nothing is relayed chunk by chunk.
\<close>

theorem forward_sends_whole_body:
  assumes "session self = Some cs" and "\<not> closed cs"
    and "req_payload request = Inr chunks"
  shows "(\<exists>url hs. snd (forward_request self request endpoint net sent) =
                     sent @ [Post url hs (concat chunks)]) \<and>
         (\<forall>response rchunks.
            net (length sent)
              (Post (ollama_url self @ ''/'' @ lstrip_slash endpoint)
                 (forward_headers (req_headers request)) (concat chunks)) = Inr response \<and>
            up_payload response = Inr rchunks \<longrightarrow>
            (\<exists>status hs. fst (forward_request self request endpoint net sent) =
                            Inr (Body_Response (concat rchunks) status hs)))"
proof -
  have "snd (forward_request self request endpoint net sent) =
          sent @ [Post (ollama_url self @ ''/'' @ lstrip_slash endpoint)
                    (forward_headers (req_headers request)) (concat chunks)]"
    using assms by (simp add: forward_request_sent request_read_def session_request_def)
  moreover have "\<exists>status hs. fst (forward_request self request endpoint net sent) =
                            Inr (Body_Response (concat rchunks) status hs)"
    if "net (length sent)
              (Post (ollama_url self @ ''/'' @ lstrip_slash endpoint)
                 (forward_headers (req_headers request)) (concat chunks)) = Inr response"
      and "up_payload response = Inr rchunks" for response rchunks
    using forward_request_success [where net = net and sent = sent, OF assms that] by simp
  ultimately show ?thesis by blast
qed

theorem forward_sends_whole_body_witness:
  "(\<exists>url hs. snd (forward_request demo_proxy chat_request ''chat'' ok_upstream []) =
               [Post url hs ''{\"model\":\"llama3\"}'']) \<and>
   (\<exists>status hs. fst (forward_request demo_proxy chat_request ''chat'' ok_upstream []) =
                   Inr (Body_Response ''{\"done\":true}'' status hs))"
proof -
  have h2: "\<not> closed \<lparr>closed = False\<rparr>" by simp
  have h3: "req_payload chat_request = Inr [''{\"model\":'', ''\"llama3\"}'']"
    by (simp add: chat_request_def)
  have h4: "ok_upstream (length ([] :: out_request list))
              (Post (ollama_url demo_proxy @ ''/'' @ lstrip_slash ''chat'')
                 (forward_headers (req_headers chat_request))
                 (concat [''{\"model\":'', ''\"llama3\"}''])) = Inr ok_response"
    by (simp add: ok_upstream_def)
  have h5: "up_payload ok_response = Inr [''{\"done\":'', ''true}'']"
    by (simp add: ok_response_def)
  from forward_sends_whole_body
    [where net = ok_upstream and sent = "[]" and endpoint = "''chat''",
      OF demo_proxy_session h2 h3] h4 h5
  show ?thesis by fastforce
qed

text \<open>
  C7 as stated fails: an inbound body arriving in two chunks of 9 bytes goes out as one
  buffer of 18 bytes, and an upstream body arriving in two chunks comes back as one
  buffer holding both.
\<close>

theorem forward_buffers_whole_body:
  "req_payload chat_request = Inr [''{\"model\":'', ''\"llama3\"}''] \<and>
   up_payload ok_response = Inr [''{\"done\":'', ''true}''] \<and>
   handle_chat_request demo_proxy chat_request ok_upstream [] =
     (Inr (Body_Response ''{\"done\":true}'' 200
             [(''Content-Type'', ''application/json''), (''Connection'', ''close'')]),
      [Post ''http://localhost:11434/chat''
         [(''Connection'', ''keep-alive''), (''Content-Type'', ''application/json'')]
         ''{\"model\":\"llama3\"}''])"
  by code_simp




section \<open>The /mcp route\<close>

text \<open>
  C9. A POST /mcp request that passes the test of the model field (the JSON body is an
  object and its model field has a true truth value) is forwarded to the upstream
  endpoint "generate", the endpoint of POST /completion: the two handlers then hand the
  same request to the upstream and return the same response.
\<close>

theorem mcp_same_as_completion:
  assumes "req_json request = Inr body"
    and "json_get body ''model'' (JStr []) = Inr model"
    and "truthy model"
  shows "handle_mcp_request self request net sent =
           handle_completion_request self request net sent \<and>
         handle_completion_request self request net sent =
           forward_request self request ''generate'' net sent"
  using mcp_valid_forwards [OF assms] by (simp add: handle_completion_request_def)

theorem mcp_same_as_completion_witness:
  "handle_mcp_request demo_proxy chat_request ok_upstream [] =
     handle_completion_request demo_proxy chat_request ok_upstream [] \<and>
   snd (handle_completion_request demo_proxy chat_request ok_upstream []) =
     [Post ''http://localhost:11434/generate''
        [(''Connection'', ''keep-alive''), (''Content-Type'', ''application/json'')]
        ''{\"model\":\"llama3\"}'']"
proof -
  have h1: "req_json chat_request = Inr (JObj [(''model'', JStr ''llama3'')])"
    by (simp add: chat_request_def)
  have h2: "json_get (JObj [(''model'', JStr ''llama3'')]) ''model'' (JStr []) =
              Inr (JStr ''llama3'')"
    by simp
  have h3: "truthy (JStr ''llama3'')" by simp
  have s: "snd (forward_request demo_proxy chat_request ''generate'' ok_upstream []) =
     [Post ''http://localhost:11434/generate''
        [(''Connection'', ''keep-alive''), (''Content-Type'', ''application/json'')]
        ''{\"model\":\"llama3\"}'']"
    by code_simp
  from mcp_same_as_completion [OF h1 h2 h3, of demo_proxy ok_upstream "[]"] s
  show ?thesis by simp
qed



end
